theory Spec2Isabelle
  imports Main
begin

section \<open>JavaScript values used by server.js\<close>

text \<open>
  The values that occur in line 3 of server.js: \<^verbatim>\<open>process.env.PORT\<close> is a string or
  \<^verbatim>\<open>undefined\<close> (Node stores every environment variable as a string), and
  \<^verbatim>\<open>3000\<close> is a number. Only integers occur, so numbers are \<open>int\<close>.
\<close>

datatype js_value = Undefined | Str string | Num int

text \<open>JavaScript's truthiness: \<^verbatim>\<open>undefined\<close>, the empty string and \<^verbatim>\<open>0\<close> are falsy.\<close>

fun truthy :: "js_value \<Rightarrow> bool" where
  "truthy Undefined = False"
| "truthy (Str s) = (s \<noteq> [])"
| "truthy (Num n) = (n \<noteq> 0)"

text \<open>\<^verbatim>\<open>a || b\<close>: the left operand when it is truthy, the right operand otherwise.\<close>

definition js_or :: "js_value \<Rightarrow> js_value \<Rightarrow> js_value" where
  "js_or a b = (if truthy a then a else b)"

text \<open>The process environment is a dictionary from names to strings.\<close>

type_synonym environment = "string \<rightharpoonup> string"

text \<open>\<^verbatim>\<open>process.env.NAME\<close>: the variable's string, \<^verbatim>\<open>undefined\<close> when it is not set.\<close>

definition env_get :: "environment \<Rightarrow> string \<Rightarrow> js_value" where
  "env_get env name = (case env name of None \<Rightarrow> Undefined | Some s \<Rightarrow> Str s)"

text \<open>Decimal digits of a natural number, and an integer as JavaScript prints it.\<close>

fun digits :: "nat \<Rightarrow> string" where
  "digits n =
     (if n < 10 then [''0123456789'' ! n]
      else digits (n div 10) @ [''0123456789'' ! (n mod 10)])"

definition show_int :: "int \<Rightarrow> string" where
  "show_int i = (if i < 0 then ''-'' @ digits (nat (- i)) else digits (nat i))"

text \<open>
  String conversion as a template literal \<^verbatim>\<open>`${v}`\<close> performs it: a string is
  itself, a number is printed, \<^verbatim>\<open>undefined\<close> is the word.
\<close>

fun js_to_string :: "js_value \<Rightarrow> string" where
  "js_to_string Undefined = ''undefined''"
| "js_to_string (Str s) = s"
| "js_to_string (Num n) = show_int n"

subsection \<open>Object literals and \<^verbatim>\<open>JSON.stringify\<close>\<close>

text \<open>
  The two payloads of server.js are literals built from objects, arrays, strings and
  integers. An object keeps its keys in the order the literal lists them, so it is an
  association list.
\<close>

datatype json = JNum int | JStr string | JArr "json list" | JObj "(string \<times> json) list"

definition hex2 :: "nat \<Rightarrow> string" where
  "hex2 n = [''0123456789abcdef'' ! (n div 16), ''0123456789abcdef'' ! (n mod 16)]"

text \<open>
  A character inside a JSON string: the double quote (code 0x22) and the backslash (0x5C)
  are escaped, a control character gets its short escape or \<^verbatim>\<open>\u00XX\<close>, every
  other character stands for itself.
\<close>

definition quote_char :: "char \<Rightarrow> string" where
  "quote_char c =
     (if c = CHR 0x22 then [CHR 0x5C, CHR 0x22]
      else if c = CHR 0x5C then [CHR 0x5C, CHR 0x5C]
      else if c = CHR 0x08 then [CHR 0x5C, CHR ''b'']
      else if c = CHR 0x0C then [CHR 0x5C, CHR ''f'']
      else if c = CHR 0x0A then [CHR 0x5C, CHR ''n'']
      else if c = CHR 0x0D then [CHR 0x5C, CHR ''r'']
      else if c = CHR 0x09 then [CHR 0x5C, CHR ''t'']
      else if (of_char c :: nat) < 32
        then [CHR 0x5C, CHR ''u'', CHR ''0'', CHR ''0''] @ hex2 (of_char c)
      else [c])"

definition quote :: "string \<Rightarrow> string" where
  "quote s = [CHR 0x22] @ concat (map quote_char s) @ [CHR 0x22]"

fun join :: "string \<Rightarrow> string list \<Rightarrow> string" where
  "join sep [] = []"
| "join sep [x] = x"
| "join sep (x # y # ys) = x @ sep @ join sep (y # ys)"

text \<open>\<^verbatim>\<open>JSON.stringify(v)\<close> without replacer or indentation, as \<^verbatim>\<open>res.json\<close> calls it.\<close>

primrec stringify :: "json \<Rightarrow> string" where
  "stringify (JNum n) = show_int n"
| "stringify (JStr s) = quote s"
| "stringify (JArr vs) = ''['' @ join '','' (map stringify vs) @ '']''"
| "stringify (JObj ms) =
     ''{'' @ join '','' (map (\<lambda>(k, v). quote k @ '':'' @ v) (map (map_prod id stringify) ms))
       @ ''}''"

section \<open>The framework: Express with its default settings\<close>

text \<open>
  server.js is six lines on top of Express; what a request gets is decided by the
  framework's router and by \<^verbatim>\<open>res.json\<close>. This section models those two, as far as
  server.js uses them: routes with literal paths, registered by \<^verbatim>\<open>app.get\<close>, whose
  handlers end the response with one call of \<^verbatim>\<open>res.json\<close>, under the settings
  \<^verbatim>\<open>express()\<close> starts with (case-insensitive, non-strict routing; weak entity tags).
\<close>

subsection \<open>Requests and responses\<close>

text \<open>
  A request as the framework presents it to the router and to a handler:
  \<^item> \<open>req_method\<close> is \<^verbatim>\<open>req.method\<close>, in upper case as Node's parser delivers it;
  \<^item> \<open>req_path\<close> is \<^verbatim>\<open>req.path\<close>, the request target without its query string, and
    \<open>req_query\<close> is the query string, when there is one (\<^verbatim>\<open>/health?x=1\<close> has path
    \<^verbatim>\<open>/health\<close> and query \<^verbatim>\<open>x=1\<close>);
  \<^item> \<open>validators_fresh\<close> is the verdict of the framework's cache validation on the
    request's conditional header fields (\<^verbatim>\<open>If-None-Match\<close>,
    \<^verbatim>\<open>If-Modified-Since\<close>) against the entity tag the framework computes for the
    response: \<open>False\<close> for a request without those fields, \<open>True\<close> for instance
    for a request whose only cache header field is \<^verbatim>\<open>If-None-Match: *\<close>, or one
    that sends back the tag of an earlier response. The header fields themselves and
    the tag's digest are not modelled; this bit is all the framework derives from them.

  The model starts where Node hands a request to the application. What Node answers or
  drops by itself (a malformed request line, a CONNECT request) never gets there.
\<close>

record request =
  req_method :: string
  req_path :: string
  req_query :: "string option"
  validators_fresh :: bool

type_synonym header_fields = "string \<rightharpoonup> string"

text \<open>
  The response object \<^verbatim>\<open>res\<close> a handler receives: \<^verbatim>\<open>res.req\<close>, the status code
  (200 until something sets it) and the header fields set so far.
\<close>

record res =
  res_req :: request
  statusCode :: nat
  res_headers :: header_fields

text \<open>
  What goes out on the wire. Of the header fields only \<^verbatim>\<open>Content-Type\<close> is
  modelled (not \<^verbatim>\<open>ETag\<close>, \<^verbatim>\<open>Content-Length\<close>, \<^verbatim>\<open>X-Powered-By\<close>).
  The body is
  \<^item> the text sent, or
  \<^item> nothing at all, or
  \<^item> the framework's default not-found page, whose markup is not modelled, or
  \<^item> the router's answer to OPTIONS: the methods the matching routes allow, which the
    framework writes into the \<^verbatim>\<open>Allow\<close> header field and into the body. How it
    separates them and which content type it gives that body differ between the
    framework's major versions (\<^verbatim>\<open>GET,HEAD\<close> as HTML, \<^verbatim>\<open>GET, HEAD\<close> as plain
    text) and are not modelled; the list of methods is the same in both.
\<close>

datatype entity = Content string | Nothing | Not_found_page | Allowed_methods "string list"

record reply =
  status :: nat
  headers :: header_fields
  body :: entity

definition new_res :: "request \<Rightarrow> res" where
  "new_res req = \<lparr>res_req = req, statusCode = 200, res_headers = Map.empty\<rparr>"

definition res_set :: "res \<Rightarrow> string \<Rightarrow> string \<Rightarrow> res" where
  "res_set res field val = res\<lparr>res_headers := (res_headers res)(field \<mapsto> val)\<rparr>"

definition res_remove :: "res \<Rightarrow> string \<Rightarrow> res" where
  "res_remove res field = res\<lparr>res_headers := (res_headers res)(field := None)\<rparr>"

subsection \<open>\<^verbatim>\<open>res.send\<close> and \<^verbatim>\<open>res.json\<close>\<close>

text \<open>
  \<^verbatim>\<open>req.fresh\<close>: only a GET or HEAD request whose response status is 2xx or 304 can
  be fresh, and then the validators decide.
\<close>

definition req_fresh :: "res \<Rightarrow> bool" where
  "req_fresh res =
     (let m = req_method (res_req res); s = statusCode res
      in if m \<noteq> ''GET'' \<and> m \<noteq> ''HEAD'' then False
         else if (200 \<le> s \<and> s < 300) \<or> s = 304 then validators_fresh (res_req res)
         else False)"

text \<open>
  \<^verbatim>\<open>res.send(chunk)\<close> for a string: the content type defaults to HTML; a fresh request
  turns the status into 304; a 204 or 304 response loses its content type and its body;
  a HEAD request gets the header fields and no body.
\<close>

definition res_send :: "res \<Rightarrow> string \<Rightarrow> reply" where
  "res_send res chunk =
     (let res1 = (if res_headers res ''Content-Type'' = None
                  then res_set res ''Content-Type'' ''text/html; charset=utf-8'' else res);
          res2 = (if req_fresh res1 then res1\<lparr>statusCode := 304\<rparr> else res1);
          strip = (statusCode res2 = 204 \<or> statusCode res2 = 304);
          res3 = (if strip then res_remove res2 ''Content-Type'' else res2);
          chunk' = (if strip then [] else chunk)
      in \<lparr>status = statusCode res3, headers = res_headers res3,
          body = (if req_method (res_req res3) = ''HEAD'' then Nothing else Content chunk')\<rparr>)"

text \<open>
  \<^verbatim>\<open>res.json(val)\<close>: the body is \<^verbatim>\<open>JSON.stringify(val)\<close>, the content type is
  JSON unless one is set already (the framework adds the character set to it), and the
  rest is \<^verbatim>\<open>res.send\<close>.
\<close>

definition res_json :: "res \<Rightarrow> json \<Rightarrow> reply" where
  "res_json res val =
     (let body = stringify val;
          res' = (if res_headers res ''Content-Type'' = None
                  then res_set res ''Content-Type'' ''application/json; charset=utf-8'' else res)
      in res_send res' body)"

text \<open>The framework's answer when no route took the request: 404 and its default page.\<close>

definition finalhandler :: "request \<Rightarrow> res \<Rightarrow> reply" where
  "finalhandler req res =
     \<lparr>status = 404,
      headers = (res_headers res)(''Content-Type'' \<mapsto> ''text/html; charset=utf-8''),
      body = (if req_method req = ''HEAD'' then Nothing else Not_found_page)\<rparr>"

subsection \<open>Routes and the router\<close>

text \<open>A handler gets the request and the response object and ends the response.\<close>

type_synonym handler = "request \<Rightarrow> res \<Rightarrow> reply"

record route =
  route_path :: string
  route_methods :: "string list"
  route_handler :: handler

text \<open>ASCII letter case, as the router's case-insensitive comparison folds it.\<close>

definition to_lower :: "char \<Rightarrow> char" where
  "to_lower c =
     (case map_of (zip ''ABCDEFGHIJKLMNOPQRSTUVWXYZ'' ''abcdefghijklmnopqrstuvwxyz'') c of
        Some l \<Rightarrow> l | None \<Rightarrow> c)"

definition to_upper :: "char \<Rightarrow> char" where
  "to_upper c =
     (case map_of (zip ''abcdefghijklmnopqrstuvwxyz'' ''ABCDEFGHIJKLMNOPQRSTUVWXYZ'') c of
        Some u \<Rightarrow> u | None \<Rightarrow> c)"

text \<open>
  Whether a route's path pattern matches a request path, for a pattern of literal
  characters and the default settings: letter case is ignored and one trailing slash is
  optional.
\<close>

definition layer_match :: "string \<Rightarrow> string \<Rightarrow> bool" where
  "layer_match pattern p =
     (let q = map to_lower p; r = map to_lower pattern
      in if r \<noteq> [] \<and> last r = CHR ''/'' then q = r \<or> q = butlast r
         else q = r \<or> q = r @ ''/'')"

text \<open>
  Whether a route handles a method: the method's name in lower case is looked up among
  the route's methods, and HEAD counts as GET for a route without a HEAD handler.
\<close>

definition handles_method :: "route \<Rightarrow> string \<Rightarrow> bool" where
  "handles_method r m =
     (let name = map to_lower m;
          name' = (if name = ''head'' \<and> ''head'' \<notin> set (route_methods r) then ''get''
                   else name)
      in name' \<in> set (route_methods r))"

text \<open>The methods a route reports for an OPTIONS request.\<close>

definition route_options :: "route \<Rightarrow> string list" where
  "route_options r =
     (let ms = route_methods r;
          ms' = (if ''get'' \<in> set ms \<and> ''head'' \<notin> set ms then ms @ [''head''] else ms)
      in map (map to_upper) ms')"

fun appendMethods :: "string list \<Rightarrow> string list \<Rightarrow> string list" where
  "appendMethods list [] = list"
| "appendMethods list (m # ms) = appendMethods (if m \<in> set list then list else list @ [m]) ms"

text \<open>
  The router's own answer to an OPTIONS request on a path that routes match: the status
  the response object has (200, since nothing set it) and the collected methods.
\<close>

definition sendOptionsResponse :: "res \<Rightarrow> string list \<Rightarrow> reply" where
  "sendOptionsResponse res options =
     \<lparr>status = statusCode res, headers = res_headers res, body = Allowed_methods options\<rparr>"

text \<open>
  The router walks its stack in registration order. The first route whose path matches
  and which handles the method runs its handler. A route whose path matches but which
  does not handle the method is passed over, after adding its methods to the answer for
  an OPTIONS request. At the end of the stack an OPTIONS request with collected methods
  is answered with them; everything else falls through to the not-found answer.
\<close>

fun router_handle :: "route list \<Rightarrow> request \<Rightarrow> res \<Rightarrow> string list \<Rightarrow> reply" where
  "router_handle [] req res options =
     (if req_method req = ''OPTIONS'' \<and> options \<noteq> [] then sendOptionsResponse res options
      else finalhandler req res)"
| "router_handle (r # stack) req res options =
     (if \<not> layer_match (route_path r) (req_path req) then router_handle stack req res options
      else if handles_method r (req_method req) then route_handler r req res
      else router_handle stack req res
             (if req_method req = ''OPTIONS'' then appendMethods options (route_options r)
              else options))"

text \<open>\<^verbatim>\<open>express()\<close> starts with no route; \<^verbatim>\<open>app.get(path, handler)\<close> appends one.\<close>

definition express :: "route list" where
  "express = []"

definition app_get :: "string \<Rightarrow> handler \<Rightarrow> route list \<Rightarrow> route list" where
  "app_get p h stack =
     stack @ [\<lparr>route_path = p, route_methods = [''get''], route_handler = h\<rparr>]"

definition app_handle :: "route list \<Rightarrow> request \<Rightarrow> reply" where
  "app_handle stack req = router_handle stack req (new_res req) []"

text \<open>
  A running application answers the requests it is given one after the other. Each
  handler of server.js is one synchronous call, which Node runs to completion, so
  requests that arrive simultaneously are answered in some order too: a list of requests
  stands for any such order. Handling a request leaves the route table as it is: nothing
  in the handler type can change it.
\<close>

fun serve :: "route list \<Rightarrow> request list \<Rightarrow> reply list" where
  "serve stack [] = []"
| "serve stack (req # reqs) = app_handle stack req # serve stack reqs"

section \<open>The program: server.js\<close>

text \<open>
  \<^verbatim>\<open>const port = process.env.PORT || 3000;\<close>
\<close>

definition port :: "environment \<Rightarrow> js_value" where
  "port env = js_or (env_get env ''PORT'') (Num 3000)"

text \<open>
  \<^verbatim>\<open>app.get('/health', (req,res)=>res.json({status:'ok', svc:'user'}));\<close>
\<close>

definition health_handler :: handler where
  "health_handler req res =
     res_json res (JObj [(''status'', JStr ''ok''), (''svc'', JStr ''user'')])"

text \<open>
  \<^verbatim>\<open>app.get('/users', (req,res)=>res.json([{id:1,name:'Alice'}]));\<close>
\<close>

definition users_handler :: handler where
  "users_handler req res =
     res_json res (JArr [JObj [(''id'', JNum 1), (''name'', JStr ''Alice'')]])"

text \<open>The application after lines 2, 4 and 5: the two routes, in this order.\<close>

definition app :: "route list" where
  "app = app_get ''/users'' users_handler (app_get ''/health'' health_handler express)"

text \<open>The responder: what the running service answers to one request.\<close>

definition respond :: "request \<Rightarrow> reply" where
  "respond req = app_handle app req"

text \<open>
  \<^verbatim>\<open>app.listen(port,()=>console.log(`user-service listening ${port}`));\<close>

  The program's own part of the startup is the call it makes: the value it hands to
  \<^verbatim>\<open>listen\<close> and the line its callback logs once the server listens. How the
  runtime turns the value into a socket, and what it does when it cannot, is not in
  server.js.
\<close>

record listen_call =
  listen_port :: js_value
  on_listening :: string

definition startup :: "environment \<Rightarrow> listen_call" where
  "startup env =
     \<lparr>listen_port = port env,
      on_listening = ''user-service listening '' @ js_to_string (port env)\<rparr>"

section \<open>The port\<close>

lemma port_unset: "env ''PORT'' = None \<Longrightarrow> port env = Num 3000"
  by (simp add: port_def env_get_def js_or_def)

lemma port_empty: "env ''PORT'' = Some [] \<Longrightarrow> port env = Num 3000"
  by (simp add: port_def env_get_def js_or_def)

lemma port_nonempty: "env ''PORT'' = Some s \<Longrightarrow> s \<noteq> [] \<Longrightarrow> port env = Str s"
  by (simp add: port_def env_get_def js_or_def)

text \<open>
  Claim C4, as stated: an absent, unset or invalid port value makes the service listen on
  3000. It fails for an invalid value: with \<^verbatim>\<open>PORT=abc\<close> the value handed to
  \<^verbatim>\<open>listen\<close> is the string \<^verbatim>\<open>abc\<close>, not 3000.
\<close>

theorem listen_port_invalid_counterexample:
  "listen_port (startup [''PORT'' \<mapsto> ''abc'']) = Str ''abc'' \<and>
   listen_port (startup [''PORT'' \<mapsto> ''abc'']) \<noteq> Num 3000"
  by (simp add: startup_def port_def env_get_def js_or_def)

text \<open>
  Claim C4, amended: the service listens on 3000 when the port variable is absent or set
  to the empty string, and on the configured value whenever that value is a non-empty
  string (whether or not it is a valid port number).
\<close>

theorem listen_port_default_or_configured:
  "(env ''PORT'' = None \<or> env ''PORT'' = Some [] \<longrightarrow> listen_port (startup env) = Num 3000) \<and>
   (\<forall>s. env ''PORT'' = Some s \<and> s \<noteq> [] \<longrightarrow> listen_port (startup env) = Str s)"
  by (auto simp: startup_def port_unset port_empty port_nonempty)

theorem listen_port_default_or_configured_witness:
  "listen_port (startup Map.empty) = Num 3000 \<and>
   listen_port (startup [''PORT'' \<mapsto> '''']) = Num 3000 \<and>
   listen_port (startup [''PORT'' \<mapsto> ''8080'']) = Str ''8080''"
  using listen_port_default_or_configured [of Map.empty]
    listen_port_default_or_configured [of "[''PORT'' \<mapsto> '''']"]
    listen_port_default_or_configured [of "[''PORT'' \<mapsto> ''8080'']"]
  by simp

text \<open>
  Claim C10: the value of \<^verbatim>\<open>PORT\<close> is used verbatim, without parsing or validation.
  What the listen call receives is the constant \<open>port\<close>; it is 3000 exactly when
  \<^verbatim>\<open>PORT\<close> is absent or the empty string, and every non-empty value, such as
  \<^verbatim>\<open>abc\<close>, reaches the listen call unchanged, as the string it is.
\<close>

theorem port_verbatim:
  "listen_port (startup env) = port env \<and>
   (port env = Num 3000 \<longleftrightarrow> env ''PORT'' = None \<or> env ''PORT'' = Some []) \<and>
   (listen_port (startup env) = Num 3000 \<longleftrightarrow> env ''PORT'' = None \<or> env ''PORT'' = Some []) \<and>
   (\<forall>s. env ''PORT'' = Some s \<and> s \<noteq> [] \<longrightarrow>
      port env = Str s \<and> listen_port (startup env) = Str s) \<and>
   (env ''PORT'' = Some ''abc'' \<longrightarrow> listen_port (startup env) = Str ''abc'')"
  by (auto simp: startup_def port_def env_get_def js_or_def split: option.splits)

theorem port_verbatim_witness:
  "port [''PORT'' \<mapsto> ''abc''] = Str ''abc'' \<and>
   port [''PORT'' \<mapsto> ''abc''] \<noteq> Num 3000 \<and>
   listen_port (startup [''PORT'' \<mapsto> ''abc'']) = Str ''abc'' \<and>
   listen_port (startup [''PORT'' \<mapsto> ''0'']) = Str ''0'' \<and>
   listen_port (startup [''PORT'' \<mapsto> []]) = Num 3000 \<and>
   listen_port (startup Map.empty) = Num 3000"
  using port_verbatim [of "[''PORT'' \<mapsto> ''abc'']"]
    port_verbatim [of "[''PORT'' \<mapsto> ''0'']"]
    port_verbatim [of "[''PORT'' \<mapsto> []]"]
    port_verbatim [of Map.empty]
  by simp

section \<open>Facts about the framework model\<close>

lemma layer_match_health:
  "layer_match ''/health'' p \<longleftrightarrow> map to_lower p = ''/health'' \<or> map to_lower p = ''/health/''"
  by (simp add: layer_match_def to_lower_def Let_def)

lemma layer_match_users:
  "layer_match ''/users'' p \<longleftrightarrow> map to_lower p = ''/users'' \<or> map to_lower p = ''/users/''"
  by (simp add: layer_match_def to_lower_def Let_def)

lemma handles_method_get:
  "handles_method \<lparr>route_path = p, route_methods = [''get''], route_handler = h\<rparr> m \<longleftrightarrow>
     map to_lower m = ''get'' \<or> map to_lower m = ''head''"
  by (auto simp: handles_method_def Let_def)

lemma route_options_get:
  "route_options \<lparr>route_path = p, route_methods = [''get''], route_handler = h\<rparr> =
     [''GET'', ''HEAD'']"
  by (simp add: route_options_def to_upper_def)

lemma lower_methods:
  "map to_lower ''GET'' = ''get''" "map to_lower ''HEAD'' = ''head''"
  "map to_lower ''OPTIONS'' = ''options''" "map to_lower ''DELETE'' = ''delete''"
  by (simp_all add: to_lower_def)

lemma health_body:
  \<open>stringify (JObj [(''status'', JStr ''ok''), (''svc'', JStr ''user'')]) =
     ''{"status":"ok","svc":"user"}''\<close>
  by (simp add: quote_def quote_char_def)

lemma users_body:
  \<open>stringify (JArr [JObj [(''id'', JNum 1), (''name'', JStr ''Alice'')]]) =
     ''[{"id":1,"name":"Alice"}]''\<close>
  by (simp add: quote_def quote_char_def show_int_def)

lemma req_fresh_new:
  "req_fresh (res_set (new_res req) f v) \<longleftrightarrow>
     (req_method req = ''GET'' \<or> req_method req = ''HEAD'') \<and> validators_fresh req"
  by (simp add: req_fresh_def new_res_def res_set_def Let_def)

text \<open>What \<^verbatim>\<open>res.json\<close> sends when a handler calls it on the untouched response object.\<close>

lemma res_json_new:
  "res_json (new_res req) v =
     (if (req_method req = ''GET'' \<or> req_method req = ''HEAD'') \<and> validators_fresh req
      then \<lparr>status = 304, headers = Map.empty,
            body = (if req_method req = ''HEAD'' then Nothing else Content [])\<rparr>
      else \<lparr>status = 200, headers = [''Content-Type'' \<mapsto> ''application/json; charset=utf-8''],
            body = (if req_method req = ''HEAD'' then Nothing else Content (stringify v))\<rparr>)"
proof -
  let ?r = "res_set (new_res req) ''Content-Type'' ''application/json; charset=utf-8''"
  have j: "res_json (new_res req) v = res_send ?r (stringify v)"
    by (simp add: res_json_def new_res_def Let_def)
  have h: "res_headers ?r ''Content-Type'' \<noteq> None" "res_req ?r = req" "statusCode ?r = 200"
    "res_headers ?r = [''Content-Type'' \<mapsto> ''application/json; charset=utf-8'']"
    by (simp_all add: res_set_def new_res_def)
  show ?thesis
  proof (cases "(req_method req = ''GET'' \<or> req_method req = ''HEAD'') \<and> validators_fresh req")
    case True
    then have "req_fresh ?r" by (simp add: req_fresh_new)
    with True h show ?thesis
      unfolding j by (simp add: res_send_def Let_def res_remove_def)
  next
    case False
    then have "\<not> req_fresh ?r" by (simp add: req_fresh_new)
    with False h show ?thesis
      unfolding j by (simp add: res_send_def Let_def)
  qed
qed

text \<open>The router's answer to OPTIONS on a registered path.\<close>

lemma options_reply:
  "sendOptionsResponse (new_res req) [''GET'', ''HEAD''] =
     \<lparr>status = 200, headers = Map.empty, body = Allowed_methods [''GET'', ''HEAD'']\<rparr>"
  by (simp add: sendOptionsResponse_def new_res_def)

text \<open>The two routes of server.js, tried in order, and the framework's fall-through.\<close>

lemma respond_unfold:
  "respond req =
     (if layer_match ''/health'' (req_path req) \<and>
          (map to_lower (req_method req) = ''get'' \<or> map to_lower (req_method req) = ''head'')
      then health_handler req (new_res req)
      else if layer_match ''/users'' (req_path req) \<and>
          (map to_lower (req_method req) = ''get'' \<or> map to_lower (req_method req) = ''head'')
      then users_handler req (new_res req)
      else if (layer_match ''/health'' (req_path req) \<or> layer_match ''/users'' (req_path req)) \<and>
          req_method req = ''OPTIONS''
      then sendOptionsResponse (new_res req) [''GET'', ''HEAD'']
      else finalhandler req (new_res req))"
  by (simp add: respond_def app_handle_def app_def app_get_def express_def
       handles_method_get route_options_get lower_methods)


lemma finalhandler_status: "status (finalhandler req res) = 404"
  by (simp add: finalhandler_def)

lemma health_not_users: "layer_match ''/health'' p \<Longrightarrow> \<not> layer_match ''/users'' p"
  unfolding layer_match_health layer_match_users by auto

lemma lower_get_head:
  "m = ''GET'' \<or> m = ''HEAD'' \<Longrightarrow> map to_lower m = ''get'' \<or> map to_lower m = ''head''"
  by (auto simp: to_lower_def)

text \<open>A GET or HEAD request on a path that matches a route reaches that route's handler.\<close>

lemma respond_health:
  assumes "layer_match ''/health'' (req_path req)"
    and "req_method req = ''GET'' \<or> req_method req = ''HEAD''"
  shows "respond req =
     res_json (new_res req) (JObj [(''status'', JStr ''ok''), (''svc'', JStr ''user'')])"
proof -
  have "map to_lower (req_method req) = ''get'' \<or> map to_lower (req_method req) = ''head''"
    using assms(2) by (rule lower_get_head)
  with assms(1) show ?thesis
    unfolding respond_unfold health_handler_def by (simp only: simp_thms if_True)
qed

lemma respond_users:
  assumes "layer_match ''/users'' (req_path req)"
    and "req_method req = ''GET'' \<or> req_method req = ''HEAD''"
  shows "respond req =
     res_json (new_res req) (JArr [JObj [(''id'', JNum 1), (''name'', JStr ''Alice'')]])"
proof -
  have m: "map to_lower (req_method req) = ''get'' \<or> map to_lower (req_method req) = ''head''"
    using assms(2) by (rule lower_get_head)
  have n: "\<not> layer_match ''/health'' (req_path req)"
    using assms(1) health_not_users by blast
  from assms(1) m n show ?thesis
    unfolding respond_unfold users_handler_def by (simp only: simp_thms if_True if_False)
qed

lemma respond_options:
  assumes "layer_match ''/health'' (req_path req) \<or> layer_match ''/users'' (req_path req)"
    and "req_method req = ''OPTIONS''"
  shows "respond req =
     \<lparr>status = 200, headers = Map.empty, body = Allowed_methods [''GET'', ''HEAD'']\<rparr>"
proof -
  have g: "\<not> (map to_lower (req_method req) = ''get'' \<or>
              map to_lower (req_method req) = ''head'')"
    using assms(2) by (simp add: to_lower_def)
  have "respond req = sendOptionsResponse (new_res req) [''GET'', ''HEAD'']"
    unfolding respond_unfold using assms g by (simp only: simp_thms if_True if_False)
  then show ?thesis
    by (simp only: options_reply)
qed

lemma match_exact:
  "layer_match ''/health'' ''/health''" "layer_match ''/users'' ''/users''"
  by (simp_all add: layer_match_health layer_match_users to_lower_def)

lemma serve_map: "serve stack reqs = map (app_handle stack) reqs"
  by (induction reqs) auto

lemma serve_last: "last (serve stack (before @ [req])) = app_handle stack req"
  by (simp add: serve_map)

section \<open>GET /health\<close>

text \<open>
  Claim C1, as stated: every GET request to /health gets status 200 and the body
  \<^verbatim>\<open>{"status":"ok","svc":"user"}\<close>, whatever the request carries. It fails for a
  conditional request whose validators match (for instance one sent with
  \<^verbatim>\<open>If-None-Match: *\<close>): \<^verbatim>\<open>res.json\<close> ends in \<^verbatim>\<open>res.send\<close>, which
  answers a fresh request with 304 and an empty body.
\<close>

theorem health_get_conditional_counterexample:
  "status (respond \<lparr>req_method = ''GET'', req_path = ''/health'', req_query = None,
                    validators_fresh = True\<rparr>) = 304 \<and>
   body (respond \<lparr>req_method = ''GET'', req_path = ''/health'', req_query = None,
                  validators_fresh = True\<rparr>) = Content []"
  by (simp add: respond_health match_exact res_json_new)

text \<open>
  Claim C1, amended: every GET request to /health whose cache validators do not match
  (every unconditional request in particular) gets status 200, the exact body
  \<^verbatim>\<open>{"status":"ok","svc":"user"}\<close> and a JSON content type, whatever its query
  string; one whose validators match gets 304 with an empty body and no content type.
\<close>

theorem health_get:
  assumes \<open>req_method req = ''GET''\<close> and \<open>req_path req = ''/health''\<close>
  shows \<open>respond req =
     (if validators_fresh req
      then \<lparr>status = 304, headers = Map.empty, body = Content []\<rparr>
      else \<lparr>status = 200,
            headers = [''Content-Type'' \<mapsto> ''application/json; charset=utf-8''],
            body = Content ''{"status":"ok","svc":"user"}''\<rparr>)\<close>
  using assms by (simp add: respond_health match_exact res_json_new quote_def quote_char_def)

theorem health_get_witness:
  \<open>respond \<lparr>req_method = ''GET'', req_path = ''/health'', req_query = Some ''x=1'',
            validators_fresh = False\<rparr> =
     \<lparr>status = 200,
      headers = [''Content-Type'' \<mapsto> ''application/json; charset=utf-8''],
      body = Content ''{"status":"ok","svc":"user"}''\<rparr>\<close>
  using health_get [of "\<lparr>req_method = ''GET'', req_path = ''/health'', req_query = Some ''x=1'',
    validators_fresh = False\<rparr>"]
  by simp

section \<open>GET /users\<close>

text \<open>
  Claim C2, as stated: every GET request to /users gets status 200 and the body
  \<^verbatim>\<open>[{"id":1,"name":"Alice"}]\<close>, whatever the request carries. It fails in the same
  way as for /health: a conditional request whose validators match is answered 304 with
  an empty body.
\<close>

theorem users_get_conditional_counterexample:
  "status (respond \<lparr>req_method = ''GET'', req_path = ''/users'', req_query = None,
                    validators_fresh = True\<rparr>) = 304 \<and>
   body (respond \<lparr>req_method = ''GET'', req_path = ''/users'', req_query = None,
                  validators_fresh = True\<rparr>) = Content []"
  by (simp add: respond_users match_exact res_json_new)

text \<open>
  Claim C2, amended: every GET request to /users whose cache validators do not match
  (every unconditional request in particular) gets status 200, the exact body
  \<^verbatim>\<open>[{"id":1,"name":"Alice"}]\<close>, a one-element array, and a JSON content type,
  whatever its query string; one whose validators match gets 304 with an empty body and
  no content type.
\<close>

theorem users_get:
  assumes \<open>req_method req = ''GET''\<close> and \<open>req_path req = ''/users''\<close>
  shows \<open>respond req =
     (if validators_fresh req
      then \<lparr>status = 304, headers = Map.empty, body = Content []\<rparr>
      else \<lparr>status = 200,
            headers = [''Content-Type'' \<mapsto> ''application/json; charset=utf-8''],
            body = Content ''[{"id":1,"name":"Alice"}]''\<rparr>)\<close>
  using assms
  by (simp add: respond_users match_exact res_json_new quote_def quote_char_def show_int_def)

theorem users_get_witness:
  \<open>respond \<lparr>req_method = ''GET'', req_path = ''/users'', req_query = None,
            validators_fresh = False\<rparr> =
     \<lparr>status = 200,
      headers = [''Content-Type'' \<mapsto> ''application/json; charset=utf-8''],
      body = Content ''[{"id":1,"name":"Alice"}]''\<rparr>\<close>
  using users_get [of "\<lparr>req_method = ''GET'', req_path = ''/users'', req_query = None,
    validators_fresh = False\<rparr>"]
  by simp


section \<open>Requests that no route serves\<close>

lemma in_four: "(q = a \<or> q = b) \<or> (q = c \<or> q = d) \<longleftrightarrow> q \<in> {a, b, c, d}"
  by auto

lemma in_two: "(q = a \<or> q = b) \<longleftrightarrow> q \<in> {a, b}"
  by auto

lemma status_res_json: "status (res_json (new_res req) v) \<noteq> 404"
  by (simp add: res_json_new)

text \<open>
  Claim C3, as stated: every request other than GET /health and GET /users gets 404,
  any other method on the two paths included. It fails: the framework serves HEAD on a
  GET route, answers OPTIONS on a registered path itself, and matches paths without
  regard to letter case or one trailing slash.
\<close>

theorem not_found_counterexample:
  "status (respond \<lparr>req_method = ''HEAD'', req_path = ''/health'', req_query = None,
                    validators_fresh = False\<rparr>) = 200 \<and>
   body (respond \<lparr>req_method = ''HEAD'', req_path = ''/health'', req_query = None,
                  validators_fresh = False\<rparr>) = Nothing \<and>
   status (respond \<lparr>req_method = ''OPTIONS'', req_path = ''/users'', req_query = None,
                    validators_fresh = False\<rparr>) = 200 \<and>
   body (respond \<lparr>req_method = ''OPTIONS'', req_path = ''/users'', req_query = None,
                  validators_fresh = False\<rparr>) = Allowed_methods [''GET'', ''HEAD''] \<and>
   status (respond \<lparr>req_method = ''GET'', req_path = ''/HEALTH/'', req_query = None,
                    validators_fresh = False\<rparr>) = 200"
proof -
  have "layer_match ''/health'' ''/HEALTH/''"
    by (simp add: layer_match_health to_lower_def)
  then show ?thesis
    by (simp add: respond_health respond_options match_exact res_json_new)
qed

text \<open>
  Claim C3, amended: a request gets 404 exactly when its path is neither /health nor
  /users (compared without regard to letter case, one trailing slash allowed, the query
  string left aside), or its method is none of GET, HEAD and OPTIONS. On the two paths
  HEAD is served by the GET route, without a body and never with 404, and OPTIONS is
  answered by the framework with status 200 and the allowed methods GET and HEAD.
\<close>

theorem not_found_iff:
  "(status (respond req) = 404 \<longleftrightarrow>
      map to_lower (req_path req) \<notin> {''/health'', ''/health/'', ''/users'', ''/users/''} \<or>
      (map to_lower (req_method req) \<notin> {''get'', ''head''} \<and> req_method req \<noteq> ''OPTIONS'')) \<and>
   (map to_lower (req_path req) \<in> {''/health'', ''/health/'', ''/users'', ''/users/''} \<and>
    req_method req = ''HEAD'' \<longrightarrow>
      status (respond req) \<noteq> 404 \<and> body (respond req) = Nothing) \<and>
   (map to_lower (req_path req) \<in> {''/health'', ''/health/'', ''/users'', ''/users/''} \<and>
    req_method req = ''OPTIONS'' \<longrightarrow>
      status (respond req) = 200 \<and> body (respond req) = Allowed_methods [''GET'', ''HEAD''])"
proof -
  define H where "H = layer_match ''/health'' (req_path req)"
  define U where "U = layer_match ''/users'' (req_path req)"
  define G where "G = (map to_lower (req_method req) = ''get'' \<or>
                       map to_lower (req_method req) = ''head'')"
  define Opt where "Opt = (req_method req = ''OPTIONS'')"
  have r: "respond req =
      (if H \<and> G then health_handler req (new_res req)
       else if U \<and> G then users_handler req (new_res req)
       else if (H \<or> U) \<and> Opt then sendOptionsResponse (new_res req) [''GET'', ''HEAD'']
       else finalhandler req (new_res req))"
    unfolding H_def U_def G_def Opt_def by (rule respond_unfold)
  have a: "status (health_handler req (new_res req)) \<noteq> 404"
    unfolding health_handler_def by (rule status_res_json)
  have b: "status (users_handler req (new_res req)) \<noteq> 404"
    unfolding users_handler_def by (rule status_res_json)
  have c: "status (sendOptionsResponse (new_res req) [''GET'', ''HEAD'']) \<noteq> 404"
    by (simp add: options_reply)
  have d: "status (finalhandler req (new_res req)) = 404"
    by (rule finalhandler_status)
  have e1: "status (respond req) = 404 \<longleftrightarrow> \<not> (H \<or> U) \<or> (\<not> G \<and> \<not> Opt)"
    unfolding r using a b c d by auto
  have e2: "H \<or> U \<longleftrightarrow>
      map to_lower (req_path req) \<in> {''/health'', ''/health/'', ''/users'', ''/users/''}"
    unfolding H_def U_def layer_match_health layer_match_users by (rule in_four)
  have e3: "G \<longleftrightarrow> map to_lower (req_method req) \<in> {''get'', ''head''}"
    unfolding G_def by (rule in_two)
  have first: "status (respond req) = 404 \<longleftrightarrow>
      map to_lower (req_path req) \<notin> {''/health'', ''/health/'', ''/users'', ''/users/''} \<or>
      (map to_lower (req_method req) \<notin> {''get'', ''head''} \<and> req_method req \<noteq> ''OPTIONS'')"
    unfolding e1 e2 e3 Opt_def by (rule refl)
  have hd: "status (respond req) \<noteq> 404 \<and> body (respond req) = Nothing"
    if "H \<or> U" and m: "req_method req = ''HEAD''"
  proof -
    from that(1) consider (h) "layer_match ''/health'' (req_path req)"
      | (u) "layer_match ''/users'' (req_path req)"
      unfolding H_def U_def by blast
    then show ?thesis
    proof cases
      case h
      with m show ?thesis by (simp add: respond_health res_json_new)
    next
      case u
      with m show ?thesis by (simp add: respond_users res_json_new)
    qed
  qed
  have op: "status (respond req) = 200 \<and>
      body (respond req) = Allowed_methods [''GET'', ''HEAD'']"
    if "H \<or> U" and "req_method req = ''OPTIONS''"
    using that unfolding H_def U_def by (simp add: respond_options)
  from first hd op show ?thesis
    unfolding e2 by (intro conjI impI) (simp_all only: simp_thms)
qed

theorem not_found_iff_witness:
  "status (respond \<lparr>req_method = ''DELETE'', req_path = ''/users'', req_query = None,
                    validators_fresh = False\<rparr>) = 404 \<and>
   status (respond \<lparr>req_method = ''GET'', req_path = ''/nonexistent'', req_query = None,
                    validators_fresh = False\<rparr>) = 404 \<and>
   status (respond \<lparr>req_method = ''HEAD'', req_path = ''/users'', req_query = None,
                    validators_fresh = False\<rparr>) \<noteq> 404 \<and>
   body (respond \<lparr>req_method = ''HEAD'', req_path = ''/users'', req_query = None,
                  validators_fresh = False\<rparr>) = Nothing \<and>
   status (respond \<lparr>req_method = ''OPTIONS'', req_path = ''/Health/'', req_query = None,
                    validators_fresh = False\<rparr>) = 200 \<and>
   body (respond \<lparr>req_method = ''OPTIONS'', req_path = ''/Health/'', req_query = None,
                  validators_fresh = False\<rparr>) = Allowed_methods [''GET'', ''HEAD'']"
  using
    not_found_iff [of "\<lparr>req_method = ''DELETE'', req_path = ''/users'', req_query = None,
      validators_fresh = False\<rparr>"]
    not_found_iff [of "\<lparr>req_method = ''GET'', req_path = ''/nonexistent'', req_query = None,
      validators_fresh = False\<rparr>"]
    not_found_iff [of "\<lparr>req_method = ''HEAD'', req_path = ''/users'', req_query = None,
      validators_fresh = False\<rparr>"]
    not_found_iff [of "\<lparr>req_method = ''OPTIONS'', req_path = ''/Health/'', req_query = None,
      validators_fresh = False\<rparr>"]
  by (simp add: to_lower_def)

section \<open>HEAD on the two routes\<close>

text \<open>
  Claim C8, as stated: a HEAD request to /health or /users is answered with status 200
  and no body. The route does take the request and no body is sent, but the status is
  not always 200: a HEAD request whose validators match is answered 304.
\<close>

theorem head_conditional_counterexample:
  "status (respond \<lparr>req_method = ''HEAD'', req_path = ''/health'', req_query = None,
                    validators_fresh = True\<rparr>) = 304 \<and>
   status (respond \<lparr>req_method = ''HEAD'', req_path = ''/health'', req_query = None,
                    validators_fresh = True\<rparr>) \<noteq> 200"
  by (simp add: respond_health match_exact res_json_new)

text \<open>
  Claim C8, amended: registering the routes with \<^verbatim>\<open>app.get\<close> also serves HEAD. A HEAD
  request to /health or /users is never answered 404 and never gets a body: it gets
  status 200 with the JSON content type, or 304 when its cache validators match.
\<close>

theorem head_served_without_body:
  assumes "req_method req = ''HEAD''"
    and "req_path req = ''/health'' \<or> req_path req = ''/users''"
  shows "respond req =
     (if validators_fresh req
      then \<lparr>status = 304, headers = Map.empty, body = Nothing\<rparr>
      else \<lparr>status = 200,
            headers = [''Content-Type'' \<mapsto> ''application/json; charset=utf-8''],
            body = Nothing\<rparr>)"
  using assms by (auto simp: respond_health respond_users match_exact res_json_new)

theorem head_served_without_body_witness:
  "respond \<lparr>req_method = ''HEAD'', req_path = ''/users'', req_query = None,
            validators_fresh = False\<rparr> =
     \<lparr>status = 200,
      headers = [''Content-Type'' \<mapsto> ''application/json; charset=utf-8''],
      body = Nothing\<rparr>"
  using head_served_without_body [of "\<lparr>req_method = ''HEAD'', req_path = ''/users'',
    req_query = None, validators_fresh = False\<rparr>"]
  by simp


section \<open>Query strings, letter case and trailing slashes\<close>

text \<open>
  Claim C9, as stated: a GET to /health or /users with any query string, or written as
  /health/ or /HEALTH, still gets 200 and the fixed body. Matching does ignore the
  query string, letter case and one trailing slash, but the status is not always 200:
  such a request is answered 304 with an empty body when its validators match.
\<close>

theorem get_variant_conditional_counterexample:
  "status (respond \<lparr>req_method = ''GET'', req_path = ''/health'', req_query = Some ''x=1'',
                    validators_fresh = True\<rparr>) = 304 \<and>
   body (respond \<lparr>req_method = ''GET'', req_path = ''/health'', req_query = Some ''x=1'',
                  validators_fresh = True\<rparr>) = Content []"
  by (simp add: respond_health match_exact res_json_new)

text \<open>
  Claim C9, amended: route matching ignores everything beyond the path, its letter case
  and one trailing slash. A GET whose path is /health or /users in any letter case, with
  or without a trailing slash, with any query string or none, gets the reply the plain
  GET /health or GET /users with the same cache validators gets: status 200 with the
  fixed body when the validators do not match, 304 with an empty body when they do.
\<close>

theorem get_ignores_query_case_and_slash:
  assumes \<open>req_method req = ''GET''\<close>
  shows \<open>(map to_lower (req_path req) \<in> {''/health'', ''/health/''} \<longrightarrow>
       respond req =
         respond \<lparr>req_method = ''GET'', req_path = ''/health'', req_query = None,
                  validators_fresh = validators_fresh req\<rparr> \<and>
       respond req =
         (if validators_fresh req
          then \<lparr>status = 304, headers = Map.empty, body = Content []\<rparr>
          else \<lparr>status = 200,
                headers = [''Content-Type'' \<mapsto> ''application/json; charset=utf-8''],
                body = Content ''{"status":"ok","svc":"user"}''\<rparr>)) \<and>
     (map to_lower (req_path req) \<in> {''/users'', ''/users/''} \<longrightarrow>
       respond req =
         respond \<lparr>req_method = ''GET'', req_path = ''/users'', req_query = None,
                  validators_fresh = validators_fresh req\<rparr> \<and>
       respond req =
         (if validators_fresh req
          then \<lparr>status = 304, headers = Map.empty, body = Content []\<rparr>
          else \<lparr>status = 200,
                headers = [''Content-Type'' \<mapsto> ''application/json; charset=utf-8''],
                body = Content ''[{"id":1,"name":"Alice"}]''\<rparr>))\<close>
proof (intro conjI impI)
  assume "map to_lower (req_path req) \<in> {''/health'', ''/health/''}"
  then have m: "layer_match ''/health'' (req_path req)"
    unfolding layer_match_health in_two [symmetric] .
  show "respond req =
      respond \<lparr>req_method = ''GET'', req_path = ''/health'', req_query = None,
               validators_fresh = validators_fresh req\<rparr>"
    using assms m by (simp add: respond_health match_exact res_json_new)
  show \<open>respond req =
      (if validators_fresh req
       then \<lparr>status = 304, headers = Map.empty, body = Content []\<rparr>
       else \<lparr>status = 200,
             headers = [''Content-Type'' \<mapsto> ''application/json; charset=utf-8''],
             body = Content ''{"status":"ok","svc":"user"}''\<rparr>)\<close>
    using assms m by (simp add: respond_health res_json_new quote_def quote_char_def)
next
  assume "map to_lower (req_path req) \<in> {''/users'', ''/users/''}"
  then have m: "layer_match ''/users'' (req_path req)"
    unfolding layer_match_users in_two [symmetric] .
  show "respond req =
      respond \<lparr>req_method = ''GET'', req_path = ''/users'', req_query = None,
               validators_fresh = validators_fresh req\<rparr>"
    using assms m by (simp add: respond_users match_exact res_json_new)
  show \<open>respond req =
      (if validators_fresh req
       then \<lparr>status = 304, headers = Map.empty, body = Content []\<rparr>
       else \<lparr>status = 200,
             headers = [''Content-Type'' \<mapsto> ''application/json; charset=utf-8''],
             body = Content ''[{"id":1,"name":"Alice"}]''\<rparr>)\<close>
    using assms m
    by (simp add: respond_users res_json_new quote_def quote_char_def show_int_def)
qed

theorem get_ignores_query_case_and_slash_witness:
  \<open>respond \<lparr>req_method = ''GET'', req_path = ''/HEALTH/'', req_query = Some ''x=1'',
            validators_fresh = False\<rparr> =
     \<lparr>status = 200,
      headers = [''Content-Type'' \<mapsto> ''application/json; charset=utf-8''],
      body = Content ''{"status":"ok","svc":"user"}''\<rparr> \<and>
   respond \<lparr>req_method = ''GET'', req_path = ''/Users'', req_query = Some ''page=2'',
            validators_fresh = False\<rparr> =
     \<lparr>status = 200,
      headers = [''Content-Type'' \<mapsto> ''application/json; charset=utf-8''],
      body = Content ''[{"id":1,"name":"Alice"}]''\<rparr>\<close>
proof -
  let ?a = "\<lparr>req_method = ''GET'', req_path = ''/HEALTH/'', req_query = Some ''x=1'',
             validators_fresh = False\<rparr>"
  let ?b = "\<lparr>req_method = ''GET'', req_path = ''/Users'', req_query = Some ''page=2'',
             validators_fresh = False\<rparr>"
  have ma: "req_method ?a = ''GET''" and mb: "req_method ?b = ''GET''"
    by simp_all
  have pa: "map to_lower (req_path ?a) \<in> {''/health'', ''/health/''}"
    and pb: "map to_lower (req_path ?b) \<in> {''/users'', ''/users/''}"
    by (simp_all add: to_lower_def)
  from get_ignores_query_case_and_slash [OF ma, THEN conjunct1, THEN mp, OF pa, THEN conjunct2]
    get_ignores_query_case_and_slash [OF mb, THEN conjunct2, THEN mp, OF pb, THEN conjunct2]
  show ?thesis
    by simp
qed

section \<open>Replies as functions of the request\<close>

text \<open>
  Claim C6, as stated: any two GET requests to the same route get the same status and
  body, whatever the requests contain. It fails for request content the framework reads
  on the handlers' behalf: of two GET requests to /health, the unconditional one gets
  200 and the body, the one whose validators match gets 304 and an empty body.
\<close>

theorem get_replies_differ_counterexample:
  \<open>status (respond \<lparr>req_method = ''GET'', req_path = ''/health'', req_query = None,
                    validators_fresh = False\<rparr>) = 200 \<and>
   status (respond \<lparr>req_method = ''GET'', req_path = ''/health'', req_query = None,
                    validators_fresh = True\<rparr>) = 304 \<and>
   body (respond \<lparr>req_method = ''GET'', req_path = ''/health'', req_query = None,
                  validators_fresh = False\<rparr>) = Content ''{"status":"ok","svc":"user"}'' \<and>
   body (respond \<lparr>req_method = ''GET'', req_path = ''/health'', req_query = None,
                  validators_fresh = True\<rparr>) = Content []\<close>
  by (simp add: respond_health match_exact res_json_new quote_def quote_char_def)

text \<open>
  Claim C6, amended: the replies to GET /health and GET /users are deterministic and do
  not depend on earlier requests. Any two GET requests to the same route that agree on
  whether their cache validators match get identical replies (status, header fields and
  body), whatever else they contain and however many requests, in whatever order, the
  service answered before each of them; the handlers read nothing of the request and
  change no state.
\<close>

theorem get_replies_agree:
  assumes "req_method r1 = ''GET''" and "req_method r2 = ''GET''"
    and "(layer_match ''/health'' (req_path r1) \<and> layer_match ''/health'' (req_path r2)) \<or>
         (layer_match ''/users'' (req_path r1) \<and> layer_match ''/users'' (req_path r2))"
    and "validators_fresh r1 = validators_fresh r2"
  shows "respond r1 = respond r2 \<and>
         last (serve app (before1 @ [r1])) = last (serve app (before2 @ [r2])) \<and>
         health_handler r1 res = health_handler r2 res \<and>
         users_handler r1 res = users_handler r2 res"
proof -
  have "respond r1 = respond r2"
    using assms by (auto simp: respond_health respond_users res_json_new)
  then show ?thesis
    by (simp add: serve_last respond_def health_handler_def users_handler_def)
qed

theorem get_replies_agree_witness:
  "respond \<lparr>req_method = ''GET'', req_path = ''/users'', req_query = Some ''a=b'',
            validators_fresh = False\<rparr> =
   respond \<lparr>req_method = ''GET'', req_path = ''/users'', req_query = None,
            validators_fresh = False\<rparr> \<and>
   last (serve app ([] @ [\<lparr>req_method = ''GET'', req_path = ''/users'', req_query = Some ''a=b'',
            validators_fresh = False\<rparr>])) =
   last (serve app ([\<lparr>req_method = ''DELETE'', req_path = ''/users'', req_query = None,
            validators_fresh = False\<rparr>,
          \<lparr>req_method = ''GET'', req_path = ''/health'', req_query = None,
            validators_fresh = True\<rparr>] @
         [\<lparr>req_method = ''GET'', req_path = ''/users'', req_query = None,
            validators_fresh = False\<rparr>]))"
  using get_replies_agree [of
    "\<lparr>req_method = ''GET'', req_path = ''/users'', req_query = Some ''a=b'',
      validators_fresh = False\<rparr>"
    "\<lparr>req_method = ''GET'', req_path = ''/users'', req_query = None,
      validators_fresh = False\<rparr>"
    "[]"
    "[\<lparr>req_method = ''DELETE'', req_path = ''/users'', req_query = None,
       validators_fresh = False\<rparr>,
      \<lparr>req_method = ''GET'', req_path = ''/health'', req_query = None,
       validators_fresh = True\<rparr>]"]
  by (simp add: match_exact)

section \<open>Simultaneous requests\<close>





end
